theory Spec2Isabelle
  imports Complex_Main
begin

section \<open>Data model of \<^verbatim>\<open>App.tsx\<close>\<close>

text \<open>
  The TypeScript type \<^verbatim>\<open>number\<close> is double precision: every operation rounds its
  result, and there are the values \<^verbatim>\<open>NaN\<close> and \<^verbatim>\<open>Infinity\<close>. The records below leave
  the number type \<open>'n\<close> open, and the program is embedded twice.

  \<^item> With \<^typ>\<open>real\<close> for \<open>'n\<close> and exact arithmetic (\<open>simulate\<close>, \<open>cityCollection\<close>).
    This reading is used for what does not depend on rounding: how many snapshots
    there are, which months they carry, which snapshots the projector reads and
    which formula it applies. A division by zero is written out there (\<open>js_div\<close>).
  \<^item> With the arithmetic as a parameter \<open>ar\<close> (\<open>simulate_ar\<close>, \<open>cityCollection_ar\<close>): the
    number type, the value of a literal and every operation are taken as they come.
    A statement proved for every \<open>ar\<close> holds of double arithmetic, rounding, \<^verbatim>\<open>NaN\<close>
    and \<^verbatim>\<open>Infinity\<close> included. Every statement about the values that the engine
    computes is made in this reading. \<open>simulate_exact\<close> below shows that the first
    embedding of the engine is the second at exact arithmetic.

  The loop counter \<^verbatim>\<open>t\<close> of \<^verbatim>\<open>simulate\<close> starts at 0 and grows by 1, hence it is a
  \<^typ>\<open>nat\<close>. The bound \<^verbatim>\<open>months\<close> is only ever compared with the counter; a finite
  double compares as the real number it is, so \<open>months\<close> is a \<^typ>\<open>real\<close> in both
  embeddings (a bound that is \<^verbatim>\<open>NaN\<close> or infinite is outside the model).
\<close>

record 'n PeopleProperties =
  careerOrientation :: 'n
  openness :: 'n
  stress :: 'n
  skills :: 'n
  memory :: 'n
  socialNorms :: 'n
  incomeThousand :: 'n
  savingsThousand :: 'n
  fatigue :: 'n
  illness :: 'n

record 'n PeopleActions =
  jobSearchProb :: 'n
  hireProb :: 'n
  quitProb :: 'n
  migrateProb :: 'n
  trainingRate :: 'n
  educationRate :: 'n
  retireAge :: 'n
  meetRate :: 'n
  pairCreateRate :: 'n
  marryRate :: 'n
  divorceRate :: 'n
  birthRateAdj :: 'n
  deathRateAdj :: 'n

record 'n OrgActions =
  hireRate :: 'n
  fireRate :: 'n
  wageIndex :: 'n
  hoursIndex :: 'n

record 'n ScenarioParams =
  months :: real
  birthRate :: 'n
  deathRate :: 'n
  migrationNet :: 'n
  employmentShock :: 'n
  peopleProps :: "'n PeopleProperties"
  peopleActions :: "'n PeopleActions"
  orgActions :: "'n OrgActions"

record 'n TimePoint =
  t :: nat
  population :: 'n
  employed :: 'n
  unemployed :: 'n
  migration :: 'n

section \<open>The library functions in exact arithmetic\<close>

text \<open>
  On the reals, \<^verbatim>\<open>Math.round(x)\<close> is the integer nearest to \<open>x\<close>, a tie going up:
  \<open>\<lfloor>x + 1/2\<rfloor>\<close>. \<^verbatim>\<open>Math.max\<close> and \<^verbatim>\<open>Math.min\<close> are \<open>max\<close> and \<open>min\<close> on the
  reals, \<^verbatim>\<open>Math.sin\<close> and \<^verbatim>\<open>Math.PI\<close> are \<open>sin\<close> and \<open>pi\<close>.
\<close>

definition Math_round :: "real \<Rightarrow> real" where
  "Math_round x = of_int \<lfloor>x + 1 / 2\<rfloor>"

section \<open>The simulation engine \<^verbatim>\<open>simulate\<close> in exact arithmetic\<close>

text \<open>
  One definition for each \<^verbatim>\<open>const\<close> of the loop body (lines 69 to 74 and 79), in the
  order and with the parentheses of the source. The arguments \<open>popn\<close> and \<open>share\<close>
  are the values of the mutable variables \<^verbatim>\<open>population\<close> and \<^verbatim>\<open>employedShare\<close> at
  the point of use, \<open>n\<close> is the loop counter \<^verbatim>\<open>t\<close>.
\<close>

definition effectiveBirthRate :: "real ScenarioParams \<Rightarrow> real" where
  "effectiveBirthRate params =
     birthRate params *
       (1 + birthRateAdj (peopleActions params)
          + 0.1 * (pairCreateRate (peopleActions params) + marryRate (peopleActions params))
          - 0.05 * divorceRate (peopleActions params))"

definition effectiveDeathRate :: "real ScenarioParams \<Rightarrow> real" where
  "effectiveDeathRate params =
     deathRate params *
       (1 + deathRateAdj (peopleActions params) + 0.5 * illness (peopleProps params))"

definition births :: "real ScenarioParams \<Rightarrow> real \<Rightarrow> real" where
  "births params popn = (effectiveBirthRate params / 12) * popn"

definition deaths :: "real ScenarioParams \<Rightarrow> real \<Rightarrow> real" where
  "deaths params popn = (effectiveDeathRate params / 12) * popn"

definition migFactor :: "real ScenarioParams \<Rightarrow> real" where
  "migFactor params =
     1 + (migrateProb (peopleActions params) - 0.5) * 0.5
       + (wageIndex (orgActions params) - 1) * 0.3"

definition migration_month :: "real ScenarioParams \<Rightarrow> real" where
  "migration_month params = (migrationNet params / 12) * migFactor params"

definition shock :: "real ScenarioParams \<Rightarrow> nat \<Rightarrow> real" where
  "shock params n = employmentShock params * sin ((2 * pi * real n) / 12)"

text \<open>Line 76: the new value of \<^verbatim>\<open>population\<close>.\<close>

definition next_population :: "real ScenarioParams \<Rightarrow> real \<Rightarrow> real" where
  "next_population params popn =
     popn + births params popn - deaths params popn + migration_month params"

text \<open>
  Lines 80 to 89: the three assignments to \<^verbatim>\<open>employedShare\<close>, the sum of terms
  (\<open>employedShare_sum\<close>), the retirement term (\<open>employedShare_retire\<close>) and the clamp
  (\<open>next_employedShare\<close>).
\<close>

definition employedShare_sum :: "real ScenarioParams \<Rightarrow> nat \<Rightarrow> real \<Rightarrow> real" where
  "employedShare_sum params n share =
     share
       + shock params n
       + 0.02 * (skills (peopleProps params) - 0.5)
       + 0.01 * (jobSearchProb (peopleActions params) - 0.5)
       - 0.01 * (quitProb (peopleActions params) - 0.5)
       + 0.01 * (hireRate (orgActions params) - fireRate (orgActions params))
       + 0.003 * ((wageIndex (orgActions params) - 1) + (hoursIndex (orgActions params) - 1))
       - 0.02 * (fatigue (peopleProps params) + illness (peopleProps params) - 1.0)"

definition employedShare_retire :: "real ScenarioParams \<Rightarrow> nat \<Rightarrow> real \<Rightarrow> real" where
  "employedShare_retire params n share =
     employedShare_sum params n share
       - max 0 (65 - retireAge (peopleActions params)) * 0.002"

definition next_employedShare :: "real ScenarioParams \<Rightarrow> nat \<Rightarrow> real \<Rightarrow> real" where
  "next_employedShare params n share =
     max 0.45 (min 0.7 (employedShare_retire params n share))"

text \<open>
  Lines 91 to 94: the snapshot pushed in iteration \<open>n\<close>, from the values that
  \<^verbatim>\<open>population\<close> and \<^verbatim>\<open>employedShare\<close> have after their updates.
\<close>

definition snapshot :: "real ScenarioParams \<Rightarrow> nat \<Rightarrow> real \<Rightarrow> real \<Rightarrow> real TimePoint" where
  "snapshot params n popn share =
     (let employed_v = popn * share;
          unemployed_v = max 0 (popn * 0.68 - employed_v)
      in \<lparr> t = n,
           population = Math_round popn,
           employed = Math_round employed_v,
           unemployed = Math_round unemployed_v,
           migration = Math_round (migration_month params) \<rparr>)"

text \<open>
  The loop \<^verbatim>\<open>for (let t = 0; t < months; t += 1)\<close> with its three mutable variables
  as arguments. It ends because the distance of the counter to the bound shrinks.
\<close>

function sim_loop ::
  "real ScenarioParams \<Rightarrow> nat \<Rightarrow> real \<Rightarrow> real \<Rightarrow> real TimePoint list \<Rightarrow> real TimePoint list" where
  "sim_loop params n popn share result =
     (if real n < months params then
        sim_loop params (n + 1)
          (next_population params popn)
          (next_employedShare params n share)
          (result @ [snapshot params n (next_population params popn)
                       (next_employedShare params n share)])
      else result)"
  by pat_completeness auto
termination
proof (relation "measure (\<lambda>(params, n, popn, share, result). nat \<lceil>months params\<rceil> - n)")
  show "wf (measure (\<lambda>(params, n, popn, share, result). nat \<lceil>months params\<rceil> - n))"
    by simp
next
  fix params :: "real ScenarioParams" and n :: nat and popn share :: real
    and result :: "real TimePoint list"
  assume "real n < months params"
  then have "int n < \<lceil>months params\<rceil>"
    by (simp add: less_ceiling_iff)
  then show "((params, n + 1, next_population params popn,
                next_employedShare params n share,
                result @ [snapshot params n (next_population params popn)
                            (next_employedShare params n share)]),
              (params, n, popn, share, result))
             \<in> measure (\<lambda>(params, n, popn, share, result). nat \<lceil>months params\<rceil> - n)"
    by simp
qed

definition simulate :: "real ScenarioParams \<Rightarrow> real TimePoint list" where
  "simulate params = sim_loop params 0 146000000 0.60 []"

text \<open>
  The values carried by \<^verbatim>\<open>population\<close> and \<^verbatim>\<open>employedShare\<close> at the entry of
  iteration \<open>n\<close>: the initial constants, then the two updates of the loop body.
\<close>

primrec carried :: "real ScenarioParams \<Rightarrow> nat \<Rightarrow> real \<times> real" where
  "carried params 0 = (146000000, 0.60)"
| "carried params (Suc n) =
     (next_population params (fst (carried params n)),
      next_employedShare params n (snd (carried params n)))"

text \<open>The parameter set with which \<^verbatim>\<open>App\<close> starts (lines 126 to 165).\<close>

definition defaultParams :: "real ScenarioParams" where
  "defaultParams =
     \<lparr> months = 36, birthRate = 0.011, deathRate = 0.013, migrationNet = 150000,
       employmentShock = 0.001,
       peopleProps = \<lparr> careerOrientation = 0.6, openness = 0.5, stress = 0.4, skills = 0.6,
         memory = 0.5, socialNorms = 0.7, incomeThousand = 60, savingsThousand = 300,
         fatigue = 0.3, illness = 0.2 \<rparr>,
       peopleActions = \<lparr> jobSearchProb = 0.5, hireProb = 0.3, quitProb = 0.2,
         migrateProb = 0.2, trainingRate = 0.1, educationRate = 0.05, retireAge = 64,
         meetRate = 0.2, pairCreateRate = 0.15, marryRate = 0.12, divorceRate = 0.05,
         birthRateAdj = 0.0, deathRateAdj = 0.0 \<rparr>,
       orgActions = \<lparr> hireRate = 0.25, fireRate = 0.15, wageIndex = 1.0,
         hoursIndex = 1.0 \<rparr> \<rparr>"

section \<open>The projector \<^verbatim>\<open>cityCollection\<close> in exact arithmetic\<close>

text \<open>
  A city of the list \<^verbatim>\<open>cities\<close> (lines 171 to 183) and a feature of the collection
  built from it. The constant tags \<^verbatim>\<open>type: 'Feature'\<close>, \<^verbatim>\<open>type: 'Point'\<close> and
  \<^verbatim>\<open>type: 'FeatureCollection'\<close> carry no information and are left out: a feature is
  its \<^verbatim>\<open>properties\<close> and the \<^verbatim>\<open>coordinates\<close> of its geometry, the collection is
  the list \<^verbatim>\<open>features\<close>.
\<close>

record 'n City =
  name :: string
  coords :: "real \<times> real"
  pop :: 'n

record 'v FeatureProperties =
  name :: string
  "value" :: 'v
  growth :: 'v

record 'v Feature =
  properties :: "'v FeatureProperties"
  coordinates :: "real \<times> real"

text \<open>
  A division by zero does not fail in JavaScript and does not give 0 as in HOL: the
  quotient is \<^verbatim>\<open>NaN\<close> or an infinity. \<open>None\<close> stands for such a non-finite number.
  Its product with a finite number and its \<^verbatim>\<open>Math.round\<close> are non-finite again
  (\<^verbatim>\<open>Infinity * 0\<close> is \<^verbatim>\<open>NaN\<close>), so \<open>None\<close> is passed on.
\<close>

definition js_div :: "real \<Rightarrow> real \<Rightarrow> real option" where
  "js_div a b = (if b = 0 then None else Some (a / b))"

definition js_times :: "real option \<Rightarrow> real \<Rightarrow> real option" where
  "js_times q x = map_option (\<lambda>v. v * x) q"

definition js_Math_round :: "real option \<Rightarrow> real option" where
  "js_Math_round q = map_option Math_round q"

text \<open>
  Reading an array at an index: \<open>None\<close> is \<^verbatim>\<open>undefined\<close>, the value of a read
  outside the array. Reading a property of \<^verbatim>\<open>undefined\<close> throws a \<^verbatim>\<open>TypeError\<close>.
\<close>

datatype js_error = TypeError

definition js_index :: "'a list \<Rightarrow> int \<Rightarrow> 'a option" where
  "js_index xs i = (if 0 \<le> i \<and> i < int (length xs) then Some (xs ! nat i) else None)"

text \<open>
  The body of the \<^verbatim>\<open>useMemo\<close> callback (lines 186 to 201) as a function of the two
  values it depends on, \<^verbatim>\<open>data\<close> and \<^verbatim>\<open>cities\<close>. \<^verbatim>\<open>reduce\<close> is a left fold. The
  first property read is \<^verbatim>\<open>last.employed\<close>, then \<^verbatim>\<open>prev.employed\<close>, both in line 189.
\<close>

definition cityCollection ::
  "real TimePoint list \<Rightarrow> real City list \<Rightarrow> js_error + real option Feature list" where
  "cityCollection data cities =
     (let last_v = js_index data (int (length data) - 1);
          prev_v = js_index data (max 0 (int (length data) - 2));
          totalBase = foldl (\<lambda>s c. s + pop c) 0 cities
      in case last_v of
           None \<Rightarrow> Inl TypeError
         | Some last_tp \<Rightarrow>
             (case prev_v of
                None \<Rightarrow> Inl TypeError
              | Some prev_tp \<Rightarrow>
                  (let employedDelta = employed last_tp - employed prev_tp
                   in Inr (map (\<lambda>c.
                        \<lparr> properties =
                            \<lparr> name = City.name c,
                              value = js_Math_round
                                (js_times (js_div (pop c) totalBase) (employed last_tp)),
                              growth = js_Math_round
                                (js_times (js_div (pop c) totalBase) employedDelta) \<rparr>,
                          coordinates = coords c \<rparr>) cities))))"

text \<open>
  The list \<^verbatim>\<open>cities\<close> of the source. The source writes the names in Cyrillic; they
  are transliterated here, and no property below depends on them.
\<close>

definition cities :: "real City list" where
  "cities =
     [ \<lparr> City.name = ''Moskva'', coords = (37.6176, 55.7558), pop = 12600000 \<rparr>,
       \<lparr> City.name = ''Sankt-Peterburg'', coords = (30.3158, 59.9391), pop = 5600000 \<rparr>,
       \<lparr> City.name = ''Novosibirsk'', coords = (82.9346, 55.0084), pop = 1620000 \<rparr>,
       \<lparr> City.name = ''Ekaterinburg'', coords = (60.6122, 56.8389), pop = 1550000 \<rparr>,
       \<lparr> City.name = ''Kazan'', coords = (49.1064, 55.7963), pop = 1350000 \<rparr>,
       \<lparr> City.name = ''Nizhnii Novgorod'', coords = (44.002, 56.3269), pop = 1250000 \<rparr>,
       \<lparr> City.name = ''Samara'', coords = (50.15, 53.2), pop = 1160000 \<rparr>,
       \<lparr> City.name = ''Omsk'', coords = (73.3686, 54.9914), pop = 1120000 \<rparr>,
       \<lparr> City.name = ''Rostov-na-Donu'', coords = (39.7015, 47.2357), pop = 1130000 \<rparr>,
       \<lparr> City.name = ''Ufa'', coords = (55.9678, 54.7388), pop = 1130000 \<rparr>,
       \<lparr> City.name = ''Krasnoyarsk'', coords = (92.868, 56.0153), pop = 1100000 \<rparr> ]"

section \<open>The overlay merge of \<^verbatim>\<open>App\<close>\<close>

text \<open>
  The overlay \<^verbatim>\<open>json\<close> comes from \<^verbatim>\<open>res.json()\<close> or \<^verbatim>\<open>JSON.parse\<close> and has the type
  \<^verbatim>\<open>any\<close>, so the merge is modelled on JavaScript values, not on the typed records:
  an object is a finite map from property names to values, and a value is
  \<^verbatim>\<open>undefined\<close>, \<^verbatim>\<open>null\<close>, a number or an object. The overlay is taken to be an
  object, the shape of the persisted document.
\<close>

datatype jsvalue = JUndefined | JNull | JNum real | JObj "string \<Rightarrow> jsvalue option"

type_synonym jsobject = "string \<Rightarrow> jsvalue option"

text \<open>Reading a property: a missing property reads as \<^verbatim>\<open>undefined\<close>.\<close>

definition get_prop :: "jsobject \<Rightarrow> string \<Rightarrow> jsvalue" where
  "get_prop obj k = (case obj k of None \<Rightarrow> JUndefined | Some v \<Rightarrow> v)"

text \<open>Reading a property of a value that is expected to be an object.\<close>

fun get_field :: "jsvalue \<Rightarrow> string \<Rightarrow> jsvalue" where
  "get_field (JObj obj) k = get_prop obj k"
| "get_field v k = JUndefined"

text \<open>The operator \<^verbatim>\<open>??\<close>: the right operand when the left is \<^verbatim>\<open>null\<close> or \<^verbatim>\<open>undefined\<close>.\<close>

fun nullish :: "jsvalue \<Rightarrow> jsvalue \<Rightarrow> jsvalue" where
  "nullish JUndefined b = b"
| "nullish JNull b = b"
| "nullish a b = a"

text \<open>
  The updater passed to \<^verbatim>\<open>setParams\<close> (lines 306 to 312 and, with the same body, 323
  to 329): the object literal spreads \<^verbatim>\<open>p\<close>, then \<^verbatim>\<open>json\<close> over it, then sets the
  three grouped properties.
\<close>

definition mergeOverlay :: "jsobject \<Rightarrow> jsobject \<Rightarrow> jsobject" where
  "mergeOverlay p json =
     (p ++ json)
       (''peopleProps'' \<mapsto> nullish (get_prop json ''peopleProps'') (get_prop p ''peopleProps''),
        ''peopleActions'' \<mapsto> nullish (get_prop json ''peopleActions'') (get_prop p ''peopleActions''),
        ''orgActions'' \<mapsto> nullish (get_prop json ''orgActions'') (get_prop p ''orgActions''))"

text \<open>The in-memory object of a parameter set, property by property.\<close>

definition peopleProps_obj :: "real PeopleProperties \<Rightarrow> jsobject" where
  "peopleProps_obj x =
     [ ''careerOrientation'' \<mapsto> JNum (careerOrientation x),
       ''openness'' \<mapsto> JNum (openness x),
       ''stress'' \<mapsto> JNum (stress x),
       ''skills'' \<mapsto> JNum (skills x),
       ''memory'' \<mapsto> JNum (memory x),
       ''socialNorms'' \<mapsto> JNum (socialNorms x),
       ''incomeThousand'' \<mapsto> JNum (incomeThousand x),
       ''savingsThousand'' \<mapsto> JNum (savingsThousand x),
       ''fatigue'' \<mapsto> JNum (fatigue x),
       ''illness'' \<mapsto> JNum (illness x) ]"

definition peopleActions_obj :: "real PeopleActions \<Rightarrow> jsobject" where
  "peopleActions_obj x =
     [ ''jobSearchProb'' \<mapsto> JNum (jobSearchProb x),
       ''hireProb'' \<mapsto> JNum (hireProb x),
       ''quitProb'' \<mapsto> JNum (quitProb x),
       ''migrateProb'' \<mapsto> JNum (migrateProb x),
       ''trainingRate'' \<mapsto> JNum (trainingRate x),
       ''educationRate'' \<mapsto> JNum (educationRate x),
       ''retireAge'' \<mapsto> JNum (retireAge x),
       ''meetRate'' \<mapsto> JNum (meetRate x),
       ''pairCreateRate'' \<mapsto> JNum (pairCreateRate x),
       ''marryRate'' \<mapsto> JNum (marryRate x),
       ''divorceRate'' \<mapsto> JNum (divorceRate x),
       ''birthRateAdj'' \<mapsto> JNum (birthRateAdj x),
       ''deathRateAdj'' \<mapsto> JNum (deathRateAdj x) ]"

definition orgActions_obj :: "real OrgActions \<Rightarrow> jsobject" where
  "orgActions_obj x =
     [ ''hireRate'' \<mapsto> JNum (hireRate x),
       ''fireRate'' \<mapsto> JNum (fireRate x),
       ''wageIndex'' \<mapsto> JNum (wageIndex x),
       ''hoursIndex'' \<mapsto> JNum (hoursIndex x) ]"

definition params_obj :: "real ScenarioParams \<Rightarrow> jsobject" where
  "params_obj x =
     [ ''months'' \<mapsto> JNum (months x),
       ''birthRate'' \<mapsto> JNum (birthRate x),
       ''deathRate'' \<mapsto> JNum (deathRate x),
       ''migrationNet'' \<mapsto> JNum (migrationNet x),
       ''employmentShock'' \<mapsto> JNum (employmentShock x),
       ''peopleProps'' \<mapsto> JObj (peopleProps_obj (peopleProps x)),
       ''peopleActions'' \<mapsto> JObj (peopleActions_obj (peopleActions x)),
       ''orgActions'' \<mapsto> JObj (orgActions_obj (orgActions x)) ]"

section \<open>The engine and the projector over an arbitrary arithmetic\<close>

text \<open>
  What the program uses of its numbers: the value of a numeric literal (\<open>a_lit\<close>, in
  double arithmetic the double nearest to the literal), the operators \<^verbatim>\<open>+\<close>, \<^verbatim>\<open>-\<close>,
  \<^verbatim>\<open>*\<close> and \<^verbatim>\<open>/\<close>, and \<^verbatim>\<open>Math.sin\<close>, \<^verbatim>\<open>Math.max\<close>, \<^verbatim>\<open>Math.min\<close> and \<^verbatim>\<open>Math.round\<close>.
  The last four fields are only used to state properties: \<open>a_le\<close> is the comparison
  \<^verbatim>\<open><=\<close>, \<open>a_nan x\<close> says that \<open>x\<close> is \<^verbatim>\<open>NaN\<close>, \<open>a_fin x\<close> that \<open>x\<close> is a finite number
  (neither \<^verbatim>\<open>NaN\<close> nor infinite) and \<open>a_zero x\<close> that \<open>x\<close> is zero (\<^verbatim>\<open>x === 0\<close>, true of
  both signed zeros).
\<close>

record 'n arith =
  a_lit :: "real \<Rightarrow> 'n"
  a_add :: "'n \<Rightarrow> 'n \<Rightarrow> 'n"
  a_sub :: "'n \<Rightarrow> 'n \<Rightarrow> 'n"
  a_mul :: "'n \<Rightarrow> 'n \<Rightarrow> 'n"
  a_div :: "'n \<Rightarrow> 'n \<Rightarrow> 'n"
  a_sin :: "'n \<Rightarrow> 'n"
  a_max :: "'n \<Rightarrow> 'n \<Rightarrow> 'n"
  a_min :: "'n \<Rightarrow> 'n \<Rightarrow> 'n"
  a_round :: "'n \<Rightarrow> 'n"
  a_le :: "'n \<Rightarrow> 'n \<Rightarrow> bool"
  a_nan :: "'n \<Rightarrow> bool"
  a_fin :: "'n \<Rightarrow> bool"
  a_zero :: "'n \<Rightarrow> bool"

text \<open>
  The loop body of \<^verbatim>\<open>simulate\<close> (lines 69 to 94) once more, definition by definition
  as above, with every operation taken from \<open>ar\<close> and applied in the order in which
  JavaScript evaluates the expression (\<^verbatim>\<open>+\<close> and \<^verbatim>\<open>-\<close> associate to the left). The
  counter \<^verbatim>\<open>t\<close> enters the arithmetic as \<open>a_lit ar (real n)\<close>: it is a whole number
  that a double holds exactly. \<^verbatim>\<open>Math.PI\<close> is \<open>a_lit ar pi\<close>, the double nearest to \<open>pi\<close>.
\<close>

definition effectiveBirthRate_ar :: "'n arith \<Rightarrow> 'n ScenarioParams \<Rightarrow> 'n" where
  "effectiveBirthRate_ar ar params =
     a_mul ar (birthRate params)
       (a_sub ar
          (a_add ar
             (a_add ar (a_lit ar 1) (birthRateAdj (peopleActions params)))
             (a_mul ar (a_lit ar 0.1)
                (a_add ar (pairCreateRate (peopleActions params))
                          (marryRate (peopleActions params)))))
          (a_mul ar (a_lit ar 0.05) (divorceRate (peopleActions params))))"

definition effectiveDeathRate_ar :: "'n arith \<Rightarrow> 'n ScenarioParams \<Rightarrow> 'n" where
  "effectiveDeathRate_ar ar params =
     a_mul ar (deathRate params)
       (a_add ar
          (a_add ar (a_lit ar 1) (deathRateAdj (peopleActions params)))
          (a_mul ar (a_lit ar 0.5) (illness (peopleProps params))))"

definition births_ar :: "'n arith \<Rightarrow> 'n ScenarioParams \<Rightarrow> 'n \<Rightarrow> 'n" where
  "births_ar ar params popn =
     a_mul ar (a_div ar (effectiveBirthRate_ar ar params) (a_lit ar 12)) popn"

definition deaths_ar :: "'n arith \<Rightarrow> 'n ScenarioParams \<Rightarrow> 'n \<Rightarrow> 'n" where
  "deaths_ar ar params popn =
     a_mul ar (a_div ar (effectiveDeathRate_ar ar params) (a_lit ar 12)) popn"

definition migFactor_ar :: "'n arith \<Rightarrow> 'n ScenarioParams \<Rightarrow> 'n" where
  "migFactor_ar ar params =
     a_add ar
       (a_add ar (a_lit ar 1)
          (a_mul ar (a_sub ar (migrateProb (peopleActions params)) (a_lit ar 0.5)) (a_lit ar 0.5)))
       (a_mul ar (a_sub ar (wageIndex (orgActions params)) (a_lit ar 1)) (a_lit ar 0.3))"

definition migration_month_ar :: "'n arith \<Rightarrow> 'n ScenarioParams \<Rightarrow> 'n" where
  "migration_month_ar ar params =
     a_mul ar (a_div ar (migrationNet params) (a_lit ar 12)) (migFactor_ar ar params)"

definition shock_ar :: "'n arith \<Rightarrow> 'n ScenarioParams \<Rightarrow> nat \<Rightarrow> 'n" where
  "shock_ar ar params n =
     a_mul ar (employmentShock params)
       (a_sin ar
          (a_div ar (a_mul ar (a_mul ar (a_lit ar 2) (a_lit ar pi)) (a_lit ar (real n)))
                    (a_lit ar 12)))"

definition next_population_ar :: "'n arith \<Rightarrow> 'n ScenarioParams \<Rightarrow> 'n \<Rightarrow> 'n" where
  "next_population_ar ar params popn =
     a_add ar
       (a_sub ar (a_add ar popn (births_ar ar params popn)) (deaths_ar ar params popn))
       (migration_month_ar ar params)"

definition employedShare_sum_ar :: "'n arith \<Rightarrow> 'n ScenarioParams \<Rightarrow> nat \<Rightarrow> 'n \<Rightarrow> 'n" where
  "employedShare_sum_ar ar params n share =
     a_sub ar
      (a_add ar
        (a_add ar
          (a_sub ar
            (a_add ar
              (a_add ar
                (a_add ar share (shock_ar ar params n))
                (a_mul ar (a_lit ar 0.02) (a_sub ar (skills (peopleProps params)) (a_lit ar 0.5))))
              (a_mul ar (a_lit ar 0.01)
                 (a_sub ar (jobSearchProb (peopleActions params)) (a_lit ar 0.5))))
            (a_mul ar (a_lit ar 0.01) (a_sub ar (quitProb (peopleActions params)) (a_lit ar 0.5))))
          (a_mul ar (a_lit ar 0.01)
             (a_sub ar (hireRate (orgActions params)) (fireRate (orgActions params)))))
        (a_mul ar (a_lit ar 0.003)
           (a_add ar (a_sub ar (wageIndex (orgActions params)) (a_lit ar 1))
                     (a_sub ar (hoursIndex (orgActions params)) (a_lit ar 1)))))
      (a_mul ar (a_lit ar 0.02)
         (a_sub ar (a_add ar (fatigue (peopleProps params)) (illness (peopleProps params)))
                   (a_lit ar 1.0)))"

definition employedShare_retire_ar :: "'n arith \<Rightarrow> 'n ScenarioParams \<Rightarrow> nat \<Rightarrow> 'n \<Rightarrow> 'n" where
  "employedShare_retire_ar ar params n share =
     a_sub ar (employedShare_sum_ar ar params n share)
       (a_mul ar
          (a_max ar (a_lit ar 0) (a_sub ar (a_lit ar 65) (retireAge (peopleActions params))))
          (a_lit ar 0.002))"

definition next_employedShare_ar :: "'n arith \<Rightarrow> 'n ScenarioParams \<Rightarrow> nat \<Rightarrow> 'n \<Rightarrow> 'n" where
  "next_employedShare_ar ar params n share =
     a_max ar (a_lit ar 0.45) (a_min ar (a_lit ar 0.7) (employedShare_retire_ar ar params n share))"

definition snapshot_ar :: "'n arith \<Rightarrow> 'n ScenarioParams \<Rightarrow> nat \<Rightarrow> 'n \<Rightarrow> 'n \<Rightarrow> 'n TimePoint" where
  "snapshot_ar ar params n popn share =
     (let employed_v = a_mul ar popn share;
          unemployed_v = a_max ar (a_lit ar 0)
                           (a_sub ar (a_mul ar popn (a_lit ar 0.68)) employed_v)
      in \<lparr> t = n,
           population = a_round ar popn,
           employed = a_round ar employed_v,
           unemployed = a_round ar unemployed_v,
           migration = a_round ar (migration_month_ar ar params) \<rparr>)"

function sim_loop_ar ::
  "'n arith \<Rightarrow> 'n ScenarioParams \<Rightarrow> nat \<Rightarrow> 'n \<Rightarrow> 'n \<Rightarrow> 'n TimePoint list \<Rightarrow> 'n TimePoint list" where
  "sim_loop_ar ar params n popn share result =
     (if real n < months params then
        sim_loop_ar ar params (n + 1)
          (next_population_ar ar params popn)
          (next_employedShare_ar ar params n share)
          (result @ [snapshot_ar ar params n (next_population_ar ar params popn)
                       (next_employedShare_ar ar params n share)])
      else result)"
  by pat_completeness auto
termination
proof (relation "measure (\<lambda>(ar, params, n, popn, share, result). nat \<lceil>months params\<rceil> - n)")
  show "wf (measure (\<lambda>(ar :: 'n arith, params :: 'n ScenarioParams, n :: nat, popn :: 'n,
      share :: 'n, result :: 'n TimePoint list). nat \<lceil>months params\<rceil> - n))"
    by simp
next
  fix ar :: "'n arith" and params :: "'n ScenarioParams" and n :: nat and popn share :: 'n
    and result :: "'n TimePoint list"
  assume "real n < months params"
  then have "int n < \<lceil>months params\<rceil>"
    by (simp add: less_ceiling_iff)
  then show "((ar, params, n + 1, next_population_ar ar params popn,
                next_employedShare_ar ar params n share,
                result @ [snapshot_ar ar params n (next_population_ar ar params popn)
                            (next_employedShare_ar ar params n share)]),
              (ar, params, n, popn, share, result))
             \<in> measure (\<lambda>(ar, params, n, popn, share, result). nat \<lceil>months params\<rceil> - n)"
    by simp
qed

definition simulate_ar :: "'n arith \<Rightarrow> 'n ScenarioParams \<Rightarrow> 'n TimePoint list" where
  "simulate_ar ar params = sim_loop_ar ar params 0 (a_lit ar 146000000) (a_lit ar 0.60) []"

text \<open>
  The values carried by \<^verbatim>\<open>population\<close> and \<^verbatim>\<open>employedShare\<close> at the entry of
  iteration \<open>n\<close>.
\<close>

primrec carried_ar :: "'n arith \<Rightarrow> 'n ScenarioParams \<Rightarrow> nat \<Rightarrow> 'n \<times> 'n" where
  "carried_ar ar params 0 = (a_lit ar 146000000, a_lit ar 0.60)"
| "carried_ar ar params (Suc n) =
     (next_population_ar ar params (fst (carried_ar ar params n)),
      next_employedShare_ar ar params n (snd (carried_ar ar params n)))"

text \<open>The body of the \<^verbatim>\<open>useMemo\<close> callback of \<^verbatim>\<open>cityCollection\<close> (lines 186 to 201).\<close>

definition cityCollection_ar ::
  "'n arith \<Rightarrow> 'n TimePoint list \<Rightarrow> 'n City list \<Rightarrow> js_error + 'n Feature list" where
  "cityCollection_ar ar data cs =
     (let last_v = js_index data (int (length data) - 1);
          prev_v = js_index data (max 0 (int (length data) - 2));
          totalBase = foldl (\<lambda>s c. a_add ar s (pop c)) (a_lit ar 0) cs
      in case last_v of
           None \<Rightarrow> Inl TypeError
         | Some last_tp \<Rightarrow>
             (case prev_v of
                None \<Rightarrow> Inl TypeError
              | Some prev_tp \<Rightarrow>
                  (let employedDelta = a_sub ar (employed last_tp) (employed prev_tp)
                   in Inr (map (\<lambda>c.
                        \<lparr> properties =
                            \<lparr> name = City.name c,
                              value = a_round ar
                                (a_mul ar (a_div ar (pop c) totalBase) (employed last_tp)),
                              growth = a_round ar
                                (a_mul ar (a_div ar (pop c) totalBase) employedDelta) \<rparr>,
                          coordinates = coords c \<rparr>) cs))))"

text \<open>
  A parameter set and the list \<^verbatim>\<open>cities\<close> as the arithmetic reads them: every
  number written in the source is a literal.
\<close>

definition params_lit :: "'n arith \<Rightarrow> real ScenarioParams \<Rightarrow> 'n ScenarioParams" where
  "params_lit ar x =
     \<lparr> months = months x,
       birthRate = a_lit ar (birthRate x),
       deathRate = a_lit ar (deathRate x),
       migrationNet = a_lit ar (migrationNet x),
       employmentShock = a_lit ar (employmentShock x),
       peopleProps =
         \<lparr> careerOrientation = a_lit ar (careerOrientation (peopleProps x)),
           openness = a_lit ar (openness (peopleProps x)),
           stress = a_lit ar (stress (peopleProps x)),
           skills = a_lit ar (skills (peopleProps x)),
           memory = a_lit ar (memory (peopleProps x)),
           socialNorms = a_lit ar (socialNorms (peopleProps x)),
           incomeThousand = a_lit ar (incomeThousand (peopleProps x)),
           savingsThousand = a_lit ar (savingsThousand (peopleProps x)),
           fatigue = a_lit ar (fatigue (peopleProps x)),
           illness = a_lit ar (illness (peopleProps x)) \<rparr>,
       peopleActions =
         \<lparr> jobSearchProb = a_lit ar (jobSearchProb (peopleActions x)),
           hireProb = a_lit ar (hireProb (peopleActions x)),
           quitProb = a_lit ar (quitProb (peopleActions x)),
           migrateProb = a_lit ar (migrateProb (peopleActions x)),
           trainingRate = a_lit ar (trainingRate (peopleActions x)),
           educationRate = a_lit ar (educationRate (peopleActions x)),
           retireAge = a_lit ar (retireAge (peopleActions x)),
           meetRate = a_lit ar (meetRate (peopleActions x)),
           pairCreateRate = a_lit ar (pairCreateRate (peopleActions x)),
           marryRate = a_lit ar (marryRate (peopleActions x)),
           divorceRate = a_lit ar (divorceRate (peopleActions x)),
           birthRateAdj = a_lit ar (birthRateAdj (peopleActions x)),
           deathRateAdj = a_lit ar (deathRateAdj (peopleActions x)) \<rparr>,
       orgActions =
         \<lparr> hireRate = a_lit ar (hireRate (orgActions x)),
           fireRate = a_lit ar (fireRate (orgActions x)),
           wageIndex = a_lit ar (wageIndex (orgActions x)),
           hoursIndex = a_lit ar (hoursIndex (orgActions x)) \<rparr> \<rparr>"

definition cities_ar :: "'n arith \<Rightarrow> 'n City list" where
  "cities_ar ar =
     map (\<lambda>c. \<lparr> City.name = City.name c, coords = coords c, pop = a_lit ar (pop c) \<rparr>) cities"

subsection \<open>Two arithmetics\<close>

text \<open>Exact arithmetic on the reals: no rounding, no \<^verbatim>\<open>NaN\<close>, no infinity.\<close>

definition exact_arith :: "real arith" where
  "exact_arith =
     \<lparr> a_lit = (\<lambda>x. x), a_add = (+), a_sub = (-), a_mul = (*), a_div = (/),
       a_sin = sin, a_max = max, a_min = min, a_round = Math_round,
       a_le = (\<le>), a_nan = (\<lambda>x. False), a_fin = (\<lambda>x. True), a_zero = (\<lambda>x. x = 0) \<rparr>"

text \<open>
  Exact arithmetic with \<^verbatim>\<open>NaN\<close>: \<open>None\<close> is \<^verbatim>\<open>NaN\<close>, which every operation passes on
  and with which every comparison is false, as in JavaScript. It shows that the
  properties of the library functions stated below can be met together, and it is
  evaluated at inputs where the results in question are \<^verbatim>\<open>NaN\<close> in double
  arithmetic as well. There is no infinity in it: a division by zero gives \<open>None\<close>,
  and no evaluation below divides by zero.
\<close>

definition lift2 :: "(real \<Rightarrow> real \<Rightarrow> real) \<Rightarrow> real option \<Rightarrow> real option \<Rightarrow> real option" where
  "lift2 f x y =
     (case x of None \<Rightarrow> None
      | Some a \<Rightarrow> (case y of None \<Rightarrow> None | Some b \<Rightarrow> Some (f a b)))"

definition nan_le :: "real option \<Rightarrow> real option \<Rightarrow> bool" where
  "nan_le x y =
     (case x of None \<Rightarrow> False
      | Some a \<Rightarrow> (case y of None \<Rightarrow> False | Some b \<Rightarrow> a \<le> b))"

definition nan_arith :: "real option arith" where
  "nan_arith =
     \<lparr> a_lit = Some, a_add = lift2 (+), a_sub = lift2 (-), a_mul = lift2 (*),
       a_div = (\<lambda>x y. if y = Some 0 then None else lift2 (/) x y),
       a_sin = map_option sin, a_max = lift2 max, a_min = lift2 min,
       a_round = map_option Math_round,
       a_le = nan_le, a_nan = (\<lambda>x. x = None), a_fin = (\<lambda>x. x \<noteq> None),
       a_zero = (\<lambda>x. x = Some 0) \<rparr>"

text \<open>
  The parameter object after the overlay \<^verbatim>\<open>{months: 1, peopleProps: {skills: 0.9}}\<close>
  has been merged into the default parameters (see \<open>mergeOverlay\<close>): the sub-object
  \<^verbatim>\<open>peopleProps\<close> is the overlay's, and its other fields read \<^verbatim>\<open>undefined\<close>, which the
  arithmetic operators of \<^verbatim>\<open>simulate\<close> convert to \<^verbatim>\<open>NaN\<close>.
\<close>

definition partialParams :: "real option ScenarioParams" where
  "partialParams =
     (params_lit nan_arith defaultParams)
       \<lparr> months := 1,
         peopleProps :=
           \<lparr> careerOrientation = None, openness = None, stress = None, skills = Some 0.9,
             memory = None, socialNorms = None, incomeThousand = None,
             savingsThousand = None, fatigue = None, illness = None \<rparr> \<rparr>"

subsection \<open>Properties of the library functions\<close>

text \<open>
  Properties that \<^verbatim>\<open>Math.max\<close>, \<^verbatim>\<open>Math.min\<close>, \<^verbatim>\<open>Math.round\<close> and \<^verbatim>\<open><=\<close> have in
  JavaScript. \<^verbatim>\<open>Math.max\<close> and \<^verbatim>\<open>Math.min\<close> return \<^verbatim>\<open>NaN\<close> when an argument is \<^verbatim>\<open>NaN\<close>
  and one of their arguments otherwise, the larger or the smaller one; 0.45 is
  below 0.7; \<^verbatim>\<open>Math.round\<close> of a number that is not below zero is not below zero, and
  \<^verbatim>\<open>Math.round\<close> of \<^verbatim>\<open>NaN\<close> is \<^verbatim>\<open>NaN\<close>.
\<close>

definition clamp_laws :: "'n arith \<Rightarrow> bool" where
  "clamp_laws ar \<longleftrightarrow>
     (\<forall>a b. a_nan ar (a_max ar a b) \<or>
        (a_le ar a (a_max ar a b) \<and> (a_max ar a b = a \<or> a_max ar a b = b))) \<and>
     (\<forall>a b. a_nan ar (a_min ar a b) \<or>
        (a_le ar (a_min ar a b) a \<and> (a_min ar a b = a \<or> a_min ar a b = b))) \<and>
     a_le ar (a_lit ar 0.45) (a_lit ar 0.7) \<and>
     (\<forall>x. a_le ar (a_lit ar 0) x \<longrightarrow> a_le ar (a_lit ar 0) (a_round ar x)) \<and>
     (\<forall>x. a_nan ar x \<longrightarrow> a_nan ar (a_round ar x))"

text \<open>
  The difference of a finite number and itself is zero, the product of a finite
  number and zero is zero, and \<^verbatim>\<open>Math.round\<close> of zero is zero.
\<close>

definition zero_laws :: "'n arith \<Rightarrow> bool" where
  "zero_laws ar \<longleftrightarrow>
     (\<forall>x. a_fin ar x \<longrightarrow> a_zero ar (a_sub ar x x)) \<and>
     (\<forall>q z. a_fin ar q \<and> a_zero ar z \<longrightarrow> a_zero ar (a_mul ar q z)) \<and>
     (\<forall>z. a_zero ar z \<longrightarrow> a_zero ar (a_round ar z))"

section \<open>The loop and the carried values\<close>

lemma sim_loop_carried:
  "popn = fst (carried params n) \<Longrightarrow> share = snd (carried params n) \<Longrightarrow>
   sim_loop params n popn share result =
     result @ map (\<lambda>i. snapshot params i (fst (carried params (Suc i)))
                                        (snd (carried params (Suc i))))
                  [n ..< nat \<lceil>months params\<rceil>]"
proof (induction params n popn share result rule: sim_loop.induct)
  case (1 params n popn share result)
  show ?case
  proof (cases "real n < months params")
    case True
    then have "int n < \<lceil>months params\<rceil>"
      by (simp add: less_ceiling_iff)
    then have lt: "n < nat \<lceil>months params\<rceil>"
      by linarith
    have "sim_loop params n popn share result =
            sim_loop params (n + 1) (next_population params popn)
              (next_employedShare params n share)
              (result @ [snapshot params n (next_population params popn)
                           (next_employedShare params n share)])"
      using True by (subst sim_loop.simps) simp
    also have "\<dots> =
        (result @ [snapshot params n (next_population params popn)
                     (next_employedShare params n share)])
        @ map (\<lambda>i. snapshot params i (fst (carried params (Suc i)))
                                      (snd (carried params (Suc i))))
              [n + 1 ..< nat \<lceil>months params\<rceil>]"
      using True "1.prems" by (intro "1.IH") simp_all
    finally show ?thesis
      using lt "1.prems" by (simp add: upt_conv_Cons)
  next
    case False
    then have "\<not> int n < \<lceil>months params\<rceil>"
      by (simp add: less_ceiling_iff)
    then have "nat \<lceil>months params\<rceil> \<le> n"
      by linarith
    then show ?thesis
      using False by (subst sim_loop.simps) simp
  qed
qed

lemma simulate_eq_map:
  "simulate params =
     map (\<lambda>i. snapshot params i (fst (carried params (Suc i))) (snd (carried params (Suc i))))
         [0 ..< nat \<lceil>months params\<rceil>]"
  unfolding simulate_def by (subst sim_loop_carried) simp_all

lemma length_simulate: "length (simulate params) = nat \<lceil>months params\<rceil>"
  by (simp add: simulate_eq_map)

lemma less_length_simulate: "i < length (simulate params) \<longleftrightarrow> real i < months params"
proof -
  have "i < nat \<lceil>months params\<rceil> \<longleftrightarrow> int i < \<lceil>months params\<rceil>"
    by linarith
  then show ?thesis
    by (simp add: length_simulate less_ceiling_iff)
qed

lemma simulate_nth:
  "real i < months params \<Longrightarrow>
   simulate params ! i =
     snapshot params i (fst (carried params (Suc i))) (snd (carried params (Suc i)))"
proof -
  assume "real i < months params"
  then have "i < nat \<lceil>months params\<rceil>"
    using less_length_simulate [of i params] by (simp add: length_simulate)
  then show ?thesis
    by (simp add: simulate_eq_map)
qed

lemma Math_round_nonneg: "0 \<le> x \<Longrightarrow> 0 \<le> Math_round x"
  by (simp add: Math_round_def)

section \<open>The loop over an arbitrary arithmetic\<close>

lemma sim_loop_ar_carried:
  "popn = fst (carried_ar ar params n) \<Longrightarrow> share = snd (carried_ar ar params n) \<Longrightarrow>
   sim_loop_ar ar params n popn share result =
     result @ map (\<lambda>i. snapshot_ar ar params i (fst (carried_ar ar params (Suc i)))
                                        (snd (carried_ar ar params (Suc i))))
                  [n ..< nat \<lceil>months params\<rceil>]"
proof (induction ar params n popn share result rule: sim_loop_ar.induct)
  case (1 ar params n popn share result)
  show ?case
  proof (cases "real n < months params")
    case True
    then have "int n < \<lceil>months params\<rceil>"
      by (simp add: less_ceiling_iff)
    then have lt: "n < nat \<lceil>months params\<rceil>"
      by linarith
    have "sim_loop_ar ar params n popn share result =
            sim_loop_ar ar params (n + 1) (next_population_ar ar params popn)
              (next_employedShare_ar ar params n share)
              (result @ [snapshot_ar ar params n (next_population_ar ar params popn)
                           (next_employedShare_ar ar params n share)])"
      using True by (subst sim_loop_ar.simps) simp
    also have "\<dots> =
        (result @ [snapshot_ar ar params n (next_population_ar ar params popn)
                     (next_employedShare_ar ar params n share)])
        @ map (\<lambda>i. snapshot_ar ar params i (fst (carried_ar ar params (Suc i)))
                                      (snd (carried_ar ar params (Suc i))))
              [n + 1 ..< nat \<lceil>months params\<rceil>]"
      using True "1.prems" by (intro "1.IH") simp_all
    finally show ?thesis
      using lt "1.prems" by (simp add: upt_conv_Cons)
  next
    case False
    then have "\<not> int n < \<lceil>months params\<rceil>"
      by (simp add: less_ceiling_iff)
    then have "nat \<lceil>months params\<rceil> \<le> n"
      by linarith
    then show ?thesis
      using False by (subst sim_loop_ar.simps) simp
  qed
qed

lemma simulate_ar_eq_map:
  "simulate_ar ar params =
     map (\<lambda>i. snapshot_ar ar params i (fst (carried_ar ar params (Suc i)))
                                   (snd (carried_ar ar params (Suc i))))
         [0 ..< nat \<lceil>months params\<rceil>]"
  unfolding simulate_ar_def by (subst sim_loop_ar_carried) simp_all

lemma length_simulate_ar: "length (simulate_ar ar params) = nat \<lceil>months params\<rceil>"
  by (simp add: simulate_ar_eq_map)

lemma less_length_simulate_ar:
  "i < length (simulate_ar ar params) \<longleftrightarrow> real i < months params"
proof -
  have "i < nat \<lceil>months params\<rceil> \<longleftrightarrow> int i < \<lceil>months params\<rceil>"
    by linarith
  then show ?thesis
    by (simp add: length_simulate_ar less_ceiling_iff)
qed

lemma simulate_ar_nth:
  "real i < months params \<Longrightarrow>
   simulate_ar ar params ! i =
     snapshot_ar ar params i (fst (carried_ar ar params (Suc i)))
       (snd (carried_ar ar params (Suc i)))"
proof -
  assume "real i < months params"
  then have "i < nat \<lceil>months params\<rceil>"
    using less_length_simulate_ar [of i ar params] by (simp add: length_simulate_ar)
  then show ?thesis
    by (simp add: simulate_ar_eq_map)
qed

subsection \<open>The two arithmetics\<close>

lemma exact_arith_simps:
  "a_lit exact_arith x = x" "a_add exact_arith = (+)" "a_sub exact_arith = (-)"
  "a_mul exact_arith = (*)" "a_div exact_arith = (/)" "a_sin exact_arith = sin"
  "a_max exact_arith = max" "a_min exact_arith = min" "a_round exact_arith = Math_round"
  "a_le exact_arith = (\<le>)" "a_nan exact_arith x = False" "a_fin exact_arith x = True"
  "a_zero exact_arith x = (x = 0)"
  by (simp_all add: exact_arith_def)

lemma nan_arith_simps:
  "a_lit nan_arith = Some" "a_add nan_arith = lift2 (+)" "a_sub nan_arith = lift2 (-)"
  "a_mul nan_arith = lift2 (*)"
  "a_div nan_arith = (\<lambda>x y. if y = Some 0 then None else lift2 (/) x y)"
  "a_sin nan_arith = map_option sin" "a_max nan_arith = lift2 max" "a_min nan_arith = lift2 min"
  "a_round nan_arith = map_option Math_round"
  "a_le nan_arith = nan_le" "a_nan nan_arith = (\<lambda>x. x = None)"
  "a_fin nan_arith = (\<lambda>x. x \<noteq> None)" "a_zero nan_arith = (\<lambda>x. x = Some 0)"
  by (simp_all add: nan_arith_def)

lemma lift2_simps:
  "lift2 f None y = None" "lift2 f x None = None" "lift2 f (Some a) (Some b) = Some (f a b)"
  by (simp_all add: lift2_def split: option.splits)

lemma nan_le_simps:
  "nan_le None y = False" "nan_le x None = False" "nan_le (Some a) (Some b) = (a \<le> b)"
  by (simp_all add: nan_le_def split: option.splits)

lemma nan_div_Some:
  "a_div nan_arith (a_lit nan_arith x) (Some y) = (if y = 0 then None else Some (x / y))"
  by (simp add: nan_arith_simps lift2_simps)

lemma nan_fin_Some: "a_fin nan_arith (Some x)" "\<not> a_fin nan_arith None"
  by (simp_all add: nan_arith_simps)

text \<open>The embedding in exact arithmetic is the parametric one at \<open>exact_arith\<close>.\<close>

lemma next_population_exact: "next_population_ar exact_arith params popn = next_population params popn"
  by (simp add: next_population_ar_def next_population_def births_ar_def births_def
      deaths_ar_def deaths_def migration_month_ar_def migration_month_def migFactor_ar_def
      migFactor_def effectiveBirthRate_ar_def effectiveBirthRate_def effectiveDeathRate_ar_def
      effectiveDeathRate_def exact_arith_simps)

lemma next_employedShare_exact:
  "next_employedShare_ar exact_arith params n share = next_employedShare params n share"
  by (simp add: next_employedShare_ar_def next_employedShare_def employedShare_retire_ar_def
      employedShare_retire_def employedShare_sum_ar_def employedShare_sum_def shock_ar_def
      shock_def exact_arith_simps)

lemma snapshot_exact: "snapshot_ar exact_arith params n popn share = snapshot params n popn share"
  by (simp add: snapshot_ar_def snapshot_def migration_month_ar_def migration_month_def
      migFactor_ar_def migFactor_def exact_arith_simps)

lemma carried_exact: "carried_ar exact_arith params n = carried params n"
  by (induction n) (simp_all add: exact_arith_simps next_population_exact next_employedShare_exact)

lemma simulate_exact: "simulate_ar exact_arith params = simulate params"
  by (simp add: simulate_ar_eq_map simulate_eq_map snapshot_exact carried_exact
      next_population_exact next_employedShare_exact)

text \<open>Both arithmetics have the properties of the library functions.\<close>

lemma clamp_laws_exact: "clamp_laws exact_arith"
  by (auto simp add: clamp_laws_def exact_arith_simps max_def min_def Math_round_nonneg)

lemma clamp_laws_nan: "clamp_laws nan_arith"
  unfolding clamp_laws_def nan_arith_simps
proof (intro conjI allI impI)
  fix a b :: "real option"
  show "lift2 max a b = None \<or> nan_le a (lift2 max a b) \<and> (lift2 max a b = a \<or> lift2 max a b = b)"
    by (cases a; cases b) (auto simp add: lift2_simps nan_le_simps max_def)
  show "lift2 min a b = None \<or> nan_le (lift2 min a b) a \<and> (lift2 min a b = a \<or> lift2 min a b = b)"
    by (cases a; cases b) (auto simp add: lift2_simps nan_le_simps min_def)
next
  show "nan_le (Some 0.45) (Some 0.7)"
    by (simp add: nan_le_simps)
next
  fix x :: "real option"
  assume "nan_le (Some 0) x"
  then show "nan_le (Some 0) (map_option Math_round x)"
    by (cases x) (simp_all add: nan_le_simps Math_round_nonneg)
next
  fix x :: "real option"
  assume "x = None"
  then show "map_option Math_round x = None"
    by simp
qed

lemma zero_laws_nan: "zero_laws nan_arith"
  by (auto simp add: zero_laws_def nan_arith_simps lift2_simps Math_round_def)

text \<open>The run of the engine on \<open>partialParams\<close>, and the total weight of the cities.\<close>

lemma simulate_partialParams:
  "simulate_ar nan_arith partialParams =
     [\<lparr> t = 0, population = None, employed = None, unemployed = None,
         migration = Some 10625 \<rparr>]"
  by (simp add: simulate_ar_eq_map partialParams_def params_lit_def defaultParams_def
      snapshot_ar_def Let_def next_population_ar_def births_ar_def deaths_ar_def
      effectiveBirthRate_ar_def effectiveDeathRate_ar_def migration_month_ar_def
      migFactor_ar_def next_employedShare_ar_def employedShare_retire_ar_def
      employedShare_sum_ar_def shock_ar_def nan_arith_simps lift2_simps Math_round_def)

lemma total_cities_nan:
  "foldl (\<lambda>s c. a_add nan_arith s (pop c)) (a_lit nan_arith 0) (cities_ar nan_arith)
     = Some 29610000"
  by (simp add: cities_ar_def cities_def nan_arith_simps lift2_simps)

lemma cities_ar_fin:
  "\<forall>c \<in> set (cities_ar nan_arith).
     a_fin nan_arith (a_div nan_arith (pop c)
       (foldl (\<lambda>s c. a_add nan_arith s (pop c)) (a_lit nan_arith 0) (cities_ar nan_arith)))"
  unfolding total_cities_nan
  by (simp add: cities_ar_def cities_def nan_div_Some nan_fin_Some)

subsection \<open>The clamp and the floor at zero\<close>

lemma clamp_bounds:
  assumes "clamp_laws ar"
  shows "a_nan ar (a_max ar (a_lit ar 0.45) (a_min ar (a_lit ar 0.7) x)) \<or>
    (a_le ar (a_lit ar 0.45) (a_max ar (a_lit ar 0.45) (a_min ar (a_lit ar 0.7) x)) \<and>
     a_le ar (a_max ar (a_lit ar 0.45) (a_min ar (a_lit ar 0.7) x)) (a_lit ar 0.7))"
proof -
  let ?lo = "a_lit ar 0.45" and ?hi = "a_lit ar 0.7"
  let ?m = "a_min ar ?hi x"
  let ?M = "a_max ar ?lo ?m"
  from assms have mx: "a_nan ar ?M \<or> (a_le ar ?lo ?M \<and> (?M = ?lo \<or> ?M = ?m))"
    and mn: "a_nan ar ?m \<or> (a_le ar ?m ?hi \<and> (?m = ?hi \<or> ?m = x))"
    and lh: "a_le ar ?lo ?hi"
    unfolding clamp_laws_def by blast+
  show ?thesis
  proof (cases "a_nan ar ?M")
    case True
    then show ?thesis by simp
  next
    case False
    with mx have lo: "a_le ar ?lo ?M" and eq: "?M = ?lo \<or> ?M = ?m"
      by blast+
    from eq have "a_le ar ?M ?hi"
    proof
      assume "?M = ?lo"
      with lh show ?thesis by simp
    next
      assume e: "?M = ?m"
      with False have "\<not> a_nan ar ?m" by simp
      with mn have "a_le ar ?m ?hi" by blast
      with e show ?thesis by simp
    qed
    with lo show ?thesis by blast
  qed
qed

lemma unemployed_bounds:
  assumes "clamp_laws ar"
  shows "a_nan ar (a_round ar (a_max ar (a_lit ar 0) y)) \<or>
    a_le ar (a_lit ar 0) (a_round ar (a_max ar (a_lit ar 0) y))"
proof -
  from assms have mx: "a_nan ar (a_max ar (a_lit ar 0) y) \<or>
      a_le ar (a_lit ar 0) (a_max ar (a_lit ar 0) y)"
    and rn: "\<And>x. a_le ar (a_lit ar 0) x \<Longrightarrow> a_le ar (a_lit ar 0) (a_round ar x)"
    and nn: "\<And>x. a_nan ar x \<Longrightarrow> a_nan ar (a_round ar x)"
    unfolding clamp_laws_def by blast+
  from mx show ?thesis
    using rn nn by blast
qed

lemma cityCollection_ar_single:
  "cityCollection_ar ar [s] cs =
     Inr (map (\<lambda>c.
        \<lparr> properties =
            \<lparr> name = City.name c,
              value = a_round ar
                (a_mul ar (a_div ar (pop c) (foldl (\<lambda>s c. a_add ar s (pop c)) (a_lit ar 0) cs))
                   (employed s)),
              growth = a_round ar
                (a_mul ar (a_div ar (pop c) (foldl (\<lambda>s c. a_add ar s (pop c)) (a_lit ar 0) cs))
                   (a_sub ar (employed s) (employed s))) \<rparr>,
          coordinates = coords c \<rparr>) cs)"
  by (simp add: cityCollection_ar_def js_index_def Let_def)


section \<open>The population and the migration of a snapshot\<close>

text \<open>
  Claim C1. For every parameter set and every month index \<open>n\<close> below the horizon, the
  carried population starts at 146000000 and is updated by
  \<open>population += births - deaths + migration\<close>, with
  \<open>births = (birthRate * (1 + birthRateAdj + 0.1 * (pairCreateRate + marryRate)
  - 0.05 * divorceRate)) / 12 * population\<close>,
  \<open>deaths = (deathRate * (1 + deathRateAdj + 0.5 * illness)) / 12 * population\<close> and
  \<open>migration = migrationNet / 12 * (1 + (migrateProb - 0.5) * 0.5 + (wageIndex - 1) * 0.3)\<close>.
  The fields \<open>population\<close> and \<open>migration\<close> of the snapshot of month \<open>n\<close> are these
  values rounded by \<^verbatim>\<open>Math.round\<close>, and the population carried to month \<open>n + 1\<close> is
  the unrounded one. The statement is for every arithmetic \<open>ar\<close>, with the operations
  in the order of the source.
\<close>

theorem population_recurrence:
  assumes "real n < months params"
  shows "fst (carried_ar ar params 0) = a_lit ar 146000000 \<and>
    (let popn = fst (carried_ar ar params n);
         births_v = a_mul ar
           (a_div ar
              (a_mul ar (birthRate params)
                 (a_sub ar
                    (a_add ar
                       (a_add ar (a_lit ar 1) (birthRateAdj (peopleActions params)))
                       (a_mul ar (a_lit ar 0.1)
                          (a_add ar (pairCreateRate (peopleActions params))
                                    (marryRate (peopleActions params)))))
                    (a_mul ar (a_lit ar 0.05) (divorceRate (peopleActions params)))))
              (a_lit ar 12))
           popn;
         deaths_v = a_mul ar
           (a_div ar
              (a_mul ar (deathRate params)
                 (a_add ar
                    (a_add ar (a_lit ar 1) (deathRateAdj (peopleActions params)))
                    (a_mul ar (a_lit ar 0.5) (illness (peopleProps params)))))
              (a_lit ar 12))
           popn;
         migration_v = a_mul ar
           (a_div ar (migrationNet params) (a_lit ar 12))
           (a_add ar
              (a_add ar (a_lit ar 1)
                 (a_mul ar (a_sub ar (migrateProb (peopleActions params)) (a_lit ar 0.5))
                    (a_lit ar 0.5)))
              (a_mul ar (a_sub ar (wageIndex (orgActions params)) (a_lit ar 1)) (a_lit ar 0.3)))
     in fst (carried_ar ar params (Suc n)) =
          a_add ar (a_sub ar (a_add ar popn births_v) deaths_v) migration_v \<and>
        population (simulate_ar ar params ! n) = a_round ar (fst (carried_ar ar params (Suc n))) \<and>
        migration (simulate_ar ar params ! n) = a_round ar migration_v)"
  using assms
  by (simp add: simulate_ar_nth snapshot_ar_def Let_def next_population_ar_def births_ar_def
      deaths_ar_def migration_month_ar_def migFactor_ar_def effectiveBirthRate_ar_def
      effectiveDeathRate_ar_def)

text \<open>The first month of the default parameter set, in exact arithmetic.\<close>

theorem population_recurrence_witness:
  "real 0 < months defaultParams \<and>
   fst (carried_ar exact_arith defaultParams (Suc 0)) = 1751685047 / 12 \<and>
   population (simulate_ar exact_arith defaultParams ! 0) = 145973754 \<and>
   migration (simulate_ar exact_arith defaultParams ! 0) = 10625"
proof -
  have h: "real 0 < months defaultParams"
    by (simp add: defaultParams_def)
  note inst = population_recurrence [OF h, of exact_arith, unfolded Let_def]
  have c: "fst (carried_ar exact_arith defaultParams (Suc 0)) = 1751685047 / 12"
    by (subst inst [THEN conjunct2, THEN conjunct1])
       (simp add: defaultParams_def exact_arith_simps)
  have "population (simulate_ar exact_arith defaultParams ! 0) = Math_round (1751685047 / 12)"
    by (subst inst [THEN conjunct2, THEN conjunct2, THEN conjunct1])
       (simp only: c exact_arith_simps)
  then have p: "population (simulate_ar exact_arith defaultParams ! 0) = 145973754"
    by (simp add: Math_round_def)
  have m: "migration (simulate_ar exact_arith defaultParams ! 0) = 10625"
    by (subst inst [THEN conjunct2, THEN conjunct2, THEN conjunct2])
       (simp add: defaultParams_def exact_arith_simps Math_round_def)
  show ?thesis
    by (intro conjI h c p m)
qed

text \<open>
  Claim C9. For every parameter set, all snapshots of one run carry the same
  \<open>migration\<close> value: the rounded monthly migration, which is computed from
  \<open>migrationNet\<close>, \<open>migrateProb\<close> and \<open>wageIndex\<close> only, not from the month, the
  population or the employed share. The statement is for every arithmetic \<open>ar\<close>.
\<close>

theorem migration_constant:
  assumes "i < length (simulate_ar ar params)" and "j < length (simulate_ar ar params)"
  shows "migration (simulate_ar ar params ! i) = migration (simulate_ar ar params ! j) \<and>
     migration (simulate_ar ar params ! i) =
       a_round ar
         (a_mul ar
            (a_div ar (migrationNet params) (a_lit ar 12))
            (a_add ar
               (a_add ar (a_lit ar 1)
                  (a_mul ar (a_sub ar (migrateProb (peopleActions params)) (a_lit ar 0.5))
                     (a_lit ar 0.5)))
               (a_mul ar (a_sub ar (wageIndex (orgActions params)) (a_lit ar 1))
                  (a_lit ar 0.3))))"
  using assms
  by (simp add: less_length_simulate_ar simulate_ar_nth snapshot_ar_def Let_def
      migration_month_ar_def migFactor_ar_def)

text \<open>The first and the last month of the default parameter set, in exact arithmetic.\<close>

theorem migration_constant_witness:
  "0 < length (simulate_ar exact_arith defaultParams) \<and>
   35 < length (simulate_ar exact_arith defaultParams) \<and>
   migration (simulate_ar exact_arith defaultParams ! 0) =
     migration (simulate_ar exact_arith defaultParams ! 35) \<and>
   migration (simulate_ar exact_arith defaultParams ! 0) = 10625"
proof -
  have h0: "0 < length (simulate_ar exact_arith defaultParams)"
    by (simp add: length_simulate_ar defaultParams_def)
  have h1: "35 < length (simulate_ar exact_arith defaultParams)"
    by (simp add: length_simulate_ar defaultParams_def)
  note inst = migration_constant [OF h0 h1]
  have m: "migration (simulate_ar exact_arith defaultParams ! 0) = 10625"
    by (subst inst [THEN conjunct2]) (simp add: defaultParams_def exact_arith_simps Math_round_def)
  show ?thesis
    by (intro conjI h0 h1 inst [THEN conjunct1] m)
qed

section \<open>The employed share\<close>

text \<open>
  Claim C2. For every parameter set and every month index \<open>n\<close> below the horizon, the
  carried employed share starts at 0.60 and is updated by adding
  \<open>employmentShock * sin (2 * pi * n / 12)\<close>, \<open>0.02 * (skills - 0.5)\<close>,
  \<open>0.01 * (jobSearchProb - 0.5)\<close>, \<open>- 0.01 * (quitProb - 0.5)\<close>,
  \<open>0.01 * (hireRate - fireRate)\<close>, \<open>0.003 * ((wageIndex - 1) + (hoursIndex - 1))\<close> and
  \<open>- 0.02 * (fatigue + illness - 1.0)\<close> (the partial sums \<open>s1\<close> to \<open>s7\<close>, one term each),
  then subtracting \<open>max 0 (65 - retireAge) * 0.002\<close>, and only then clamping. The
  clamped value is the one the snapshot's \<open>employed\<close> field is computed from. The
  statement is for every arithmetic \<open>ar\<close>.
\<close>

theorem employedShare_recurrence:
  assumes "real n < months params"
  shows "snd (carried_ar ar params 0) = a_lit ar 0.60 \<and>
    (let s0 = snd (carried_ar ar params n);
         s1 = a_add ar s0
                (a_mul ar (employmentShock params)
                   (a_sin ar
                      (a_div ar
                         (a_mul ar (a_mul ar (a_lit ar 2) (a_lit ar pi)) (a_lit ar (real n)))
                         (a_lit ar 12))));
         s2 = a_add ar s1
                (a_mul ar (a_lit ar 0.02) (a_sub ar (skills (peopleProps params)) (a_lit ar 0.5)));
         s3 = a_add ar s2
                (a_mul ar (a_lit ar 0.01)
                   (a_sub ar (jobSearchProb (peopleActions params)) (a_lit ar 0.5)));
         s4 = a_sub ar s3
                (a_mul ar (a_lit ar 0.01)
                   (a_sub ar (quitProb (peopleActions params)) (a_lit ar 0.5)));
         s5 = a_add ar s4
                (a_mul ar (a_lit ar 0.01)
                   (a_sub ar (hireRate (orgActions params)) (fireRate (orgActions params))));
         s6 = a_add ar s5
                (a_mul ar (a_lit ar 0.003)
                   (a_add ar (a_sub ar (wageIndex (orgActions params)) (a_lit ar 1))
                             (a_sub ar (hoursIndex (orgActions params)) (a_lit ar 1))));
         s7 = a_sub ar s6
                (a_mul ar (a_lit ar 0.02)
                   (a_sub ar
                      (a_add ar (fatigue (peopleProps params)) (illness (peopleProps params)))
                      (a_lit ar 1.0)));
         before_clamp = a_sub ar s7
                (a_mul ar
                   (a_max ar (a_lit ar 0)
                      (a_sub ar (a_lit ar 65) (retireAge (peopleActions params))))
                   (a_lit ar 0.002));
         clamped = a_max ar (a_lit ar 0.45) (a_min ar (a_lit ar 0.7) before_clamp)
     in snd (carried_ar ar params (Suc n)) = clamped \<and>
        employed (simulate_ar ar params ! n) =
          a_round ar (a_mul ar (fst (carried_ar ar params (Suc n))) clamped))"
  using assms
  by (simp add: simulate_ar_nth snapshot_ar_def Let_def next_employedShare_ar_def
      employedShare_retire_ar_def employedShare_sum_ar_def shock_ar_def)

text \<open>
  The first month of the default parameter set, in exact arithmetic: the terms add
  up to 0.616, the retirement age 64 takes 0.002 away, and the clamp leaves 0.614
  as it is.
\<close>

theorem employedShare_recurrence_witness:
  "real 0 < months defaultParams \<and>
   snd (carried_ar exact_arith defaultParams 0) = 0.60 \<and>
   snd (carried_ar exact_arith defaultParams (Suc 0)) = 0.614 \<and>
   employed (simulate_ar exact_arith defaultParams ! 0) =
     Math_round (fst (carried_ar exact_arith defaultParams (Suc 0)) * 0.614)"
proof -
  have h: "real 0 < months defaultParams"
    by (simp add: defaultParams_def)
  note inst = employedShare_recurrence [OF h, of exact_arith, unfolded Let_def exact_arith_simps]
  have c0: "snd (carried_ar exact_arith defaultParams 0) = 0.60"
    using inst [THEN conjunct1] by simp
  have v: "max 0.45 (min 0.7
       (snd (carried_ar exact_arith defaultParams 0)
           + employmentShock defaultParams * sin (2 * pi * real 0 / 12)
           + 0.02 * (skills (peopleProps defaultParams) - 0.5)
           + 0.01 * (jobSearchProb (peopleActions defaultParams) - 0.5)
           - 0.01 * (quitProb (peopleActions defaultParams) - 0.5)
           + 0.01 * (hireRate (orgActions defaultParams) - fireRate (orgActions defaultParams))
           + 0.003 * ((wageIndex (orgActions defaultParams) - 1)
                      + (hoursIndex (orgActions defaultParams) - 1))
           - 0.02 * (fatigue (peopleProps defaultParams) + illness (peopleProps defaultParams) - 1.0)
         - max 0 (65 - retireAge (peopleActions defaultParams)) * 0.002)) = (0.614 :: real)"
    by (simp add: defaultParams_def exact_arith_simps)
  have c: "snd (carried_ar exact_arith defaultParams (Suc 0)) = 0.614"
    by (subst inst [THEN conjunct2, THEN conjunct1]) (rule v)
  have e: "employed (simulate_ar exact_arith defaultParams ! 0) =
     Math_round (fst (carried_ar exact_arith defaultParams (Suc 0)) * 0.614)"
    by (subst inst [THEN conjunct2, THEN conjunct2]) (simp only: v)
  show ?thesis
    by (intro conjI h c0 c e)
qed

text \<open>
  Claim C3, amended. For every parameter set and every emitted snapshot, the
  employed share after the clamp lies between 0.45 and 0.70 or is \<^verbatim>\<open>NaN\<close>, the
  \<open>employed\<close> field is the rounded product of population and employed share, the
  \<open>unemployed\<close> field is the rounded \<open>max 0 (population * 0.68 - employed)\<close> with the
  fixed ceiling 0.68 (population and employed unrounded), and \<open>unemployed\<close> is not
  below zero or is \<^verbatim>\<open>NaN\<close>. The statement is for every arithmetic whose library
  functions have the properties \<open>clamp_laws\<close>.
\<close>

theorem snapshot_bounds:
  assumes "clamp_laws ar" and "i < length (simulate_ar ar params)"
  shows "(a_nan ar (snd (carried_ar ar params (Suc i))) \<or>
       (a_le ar (a_lit ar 0.45) (snd (carried_ar ar params (Suc i))) \<and>
        a_le ar (snd (carried_ar ar params (Suc i))) (a_lit ar 0.70))) \<and>
     employed (simulate_ar ar params ! i) =
       a_round ar (a_mul ar (fst (carried_ar ar params (Suc i)))
                            (snd (carried_ar ar params (Suc i)))) \<and>
     unemployed (simulate_ar ar params ! i) =
       a_round ar (a_max ar (a_lit ar 0)
         (a_sub ar (a_mul ar (fst (carried_ar ar params (Suc i))) (a_lit ar 0.68))
                   (a_mul ar (fst (carried_ar ar params (Suc i)))
                             (snd (carried_ar ar params (Suc i)))))) \<and>
     (a_nan ar (unemployed (simulate_ar ar params ! i)) \<or>
      a_le ar (a_lit ar 0) (unemployed (simulate_ar ar params ! i)))"
proof -
  from assms(2) have lt: "real i < months params"
    by (simp add: less_length_simulate_ar)
  have b: "a_nan ar (snd (carried_ar ar params (Suc i))) \<or>
       (a_le ar (a_lit ar 0.45) (snd (carried_ar ar params (Suc i))) \<and>
        a_le ar (snd (carried_ar ar params (Suc i))) (a_lit ar 0.70))"
    using clamp_bounds [OF assms(1)] by (simp add: next_employedShare_ar_def)
  have e: "employed (simulate_ar ar params ! i) =
       a_round ar (a_mul ar (fst (carried_ar ar params (Suc i)))
                            (snd (carried_ar ar params (Suc i))))"
    using lt by (simp add: simulate_ar_nth snapshot_ar_def Let_def)
  have u: "unemployed (simulate_ar ar params ! i) =
       a_round ar (a_max ar (a_lit ar 0)
         (a_sub ar (a_mul ar (fst (carried_ar ar params (Suc i))) (a_lit ar 0.68))
                   (a_mul ar (fst (carried_ar ar params (Suc i)))
                             (snd (carried_ar ar params (Suc i))))))"
    using lt by (simp add: simulate_ar_nth snapshot_ar_def Let_def)
  have "a_nan ar (unemployed (simulate_ar ar params ! i)) \<or>
      a_le ar (a_lit ar 0) (unemployed (simulate_ar ar params ! i))"
    unfolding u by (rule unemployed_bounds [OF assms(1)])
  with b e u show ?thesis
    by blast
qed

text \<open>The first month of the default parameter set, in exact arithmetic with \<^verbatim>\<open>NaN\<close>.\<close>

theorem snapshot_bounds_witness:
  "clamp_laws nan_arith \<and>
   0 < length (simulate_ar nan_arith (params_lit nan_arith defaultParams)) \<and>
   snd (carried_ar nan_arith (params_lit nan_arith defaultParams) (Suc 0)) = Some 0.614 \<and>
   nan_le (Some 0.45) (Some 0.614) \<and> nan_le (Some 0.614) (Some 0.70) \<and>
   (unemployed (simulate_ar nan_arith (params_lit nan_arith defaultParams) ! 0) = None \<or>
    nan_le (Some 0) (unemployed (simulate_ar nan_arith (params_lit nan_arith defaultParams) ! 0)))"
proof -
  let ?p = "params_lit nan_arith defaultParams"
  have h: "0 < length (simulate_ar nan_arith ?p)"
    by (simp add: length_simulate_ar params_lit_def defaultParams_def)
  note inst = snapshot_bounds [OF clamp_laws_nan h, unfolded nan_arith_simps]
  have c: "snd (carried_ar nan_arith ?p (Suc 0)) = Some 0.614"
    by (simp add: params_lit_def defaultParams_def next_employedShare_ar_def
        employedShare_retire_ar_def employedShare_sum_ar_def shock_ar_def nan_arith_simps
        lift2_simps)
  have b: "nan_le (Some 0.45) (Some 0.614) \<and> nan_le (Some 0.614) (Some 0.70)"
    using inst [THEN conjunct1] unfolding c by simp
  show ?thesis
    by (intro conjI clamp_laws_nan h c b [THEN conjunct1] b [THEN conjunct2]
        inst [THEN conjunct2, THEN conjunct2, THEN conjunct2])
qed

text \<open>
  Claim C3 as it is written, for every parameter set, fails on \<open>partialParams\<close>:
  \<^verbatim>\<open>fatigue\<close> and \<^verbatim>\<open>illness\<close> are \<^verbatim>\<open>undefined\<close>, the sum of line 87 is \<^verbatim>\<open>NaN\<close>, and
  \<^verbatim>\<open>Math.max(0.45, Math.min(0.7, NaN))\<close> is \<^verbatim>\<open>NaN\<close>: the employed share is not between
  0.45 and 0.70. The population is \<^verbatim>\<open>NaN\<close> as well (line 70 reads \<^verbatim>\<open>illness\<close>), and so
  is the \<open>unemployed\<close> field, which is not at least zero.
\<close>

theorem snapshot_bounds_counterexample:
  "simulate_ar nan_arith partialParams =
     [\<lparr> t = 0, population = None, employed = None, unemployed = None,
         migration = Some 10625 \<rparr>] \<and>
   snd (carried_ar nan_arith partialParams (Suc 0)) = None \<and>
   \<not> a_le nan_arith (a_lit nan_arith 0.45) None \<and>
   \<not> a_le nan_arith None (a_lit nan_arith 0.70) \<and>
   \<not> a_le nan_arith (a_lit nan_arith 0) None"
proof -
  have c: "snd (carried_ar nan_arith partialParams (Suc 0)) = None"
    by (simp add: partialParams_def params_lit_def defaultParams_def
        next_employedShare_ar_def employedShare_retire_ar_def employedShare_sum_ar_def
        shock_ar_def nan_arith_simps lift2_simps)
  have l: "\<not> a_le nan_arith (a_lit nan_arith 0.45) None"
    "\<not> a_le nan_arith None (a_lit nan_arith 0.70)"
    "\<not> a_le nan_arith (a_lit nan_arith 0) None"
    by (simp_all add: nan_arith_simps nan_le_simps)
  show ?thesis
    by (intro conjI simulate_partialParams c l)
qed


section \<open>The shape of the sequence\<close>

text \<open>
  Claim C4. For every parameter set, the length of the sequence returned by
  \<open>simulate\<close> is \<open>max 0 horizonMonths\<close>; a horizon that is 0 or negative gives the
  empty sequence. The horizon is an integer \<open>k\<close>, as the data model of the
  specification has it; \<open>length_simulate\<close> above gives the length for any bound.
  \<open>simulate\<close> is a total function, with the termination of its loop proved at its
  definition, so it returns on every input.
\<close>

theorem simulate_length:
  assumes "months params = of_int k"
  shows "length (simulate params) = nat (max 0 k) \<and> (k \<le> 0 \<longrightarrow> simulate params = [])"
  using assms by (simp add: simulate_eq_map)

theorem simulate_length_witness:
  "months defaultParams = of_int 36 \<and> length (simulate defaultParams) = 36 \<and>
   months (defaultParams\<lparr>months := -3\<rparr>) = of_int (-3) \<and>
   simulate (defaultParams\<lparr>months := -3\<rparr>) = []"
proof -
  have h: "months defaultParams = of_int 36"
    by (simp add: defaultParams_def)
  have h': "months (defaultParams\<lparr>months := -3\<rparr>) = of_int (-3)"
    by simp
  have a: "length (simulate defaultParams) = 36"
    using simulate_length [OF h, THEN conjunct1] by simp
  have b: "simulate (defaultParams\<lparr>months := -3\<rparr>) = []"
    using simulate_length [OF h', THEN conjunct2] by simp
  show ?thesis
    by (intro conjI h h' a b)
qed

text \<open>
  Claim C10. For every parameter set, the \<open>t\<close> field of the \<open>i\<close>-th snapshot is \<open>i\<close>:
  the months of the sequence are 0, 1, 2 and so on up to its length, in this order,
  with no gap and no duplicate.
\<close>

theorem month_index:
  "map t (simulate params) = [0 ..< length (simulate params)]"
  by (simp add: simulate_eq_map snapshot_def Let_def comp_def map_idI)

section \<open>The projector\<close>




lemma cityCollection_empty: "cityCollection [] cs = Inl TypeError"
  by (simp add: cityCollection_def js_index_def)






text \<open>
  Claim C6, amended. For every one-element snapshot sequence whose \<open>employed\<close> value
  is a finite number, and every list of locations in which every share
  \<open>weight / totalWeight\<close> is a finite number (as it is for the cities of the source, and
  for the empty list), the projector takes the last snapshot as the previous one as
  well (both reads give the element at index 0) and returns a \<open>growth\<close> of zero for
  every location. The statement is for every arithmetic with the properties
  \<open>zero_laws\<close>.
\<close>

theorem single_snapshot_growth:
  assumes "zero_laws ar"
    and "a_fin ar (employed s)"
    and "\<forall>c \<in> set cs.
           a_fin ar (a_div ar (pop c) (foldl (\<lambda>s c. a_add ar s (pop c)) (a_lit ar 0) cs))"
  shows "js_index [s] (max 0 (int (length [s]) - 2)) = js_index [s] (int (length [s]) - 1) \<and>
    (\<exists>fs. cityCollection_ar ar [s] cs = Inr fs \<and> length fs = length cs \<and>
       (\<forall>f \<in> set fs. a_zero ar (growth (properties f))))"
proof -
  from assms(1) have sub0: "\<And>x. a_fin ar x \<Longrightarrow> a_zero ar (a_sub ar x x)"
    and mul0: "\<And>q z. a_fin ar q \<Longrightarrow> a_zero ar z \<Longrightarrow> a_zero ar (a_mul ar q z)"
    and rnd0: "\<And>z. a_zero ar z \<Longrightarrow> a_zero ar (a_round ar z)"
    unfolding zero_laws_def by blast+
  have d: "a_zero ar (a_sub ar (employed s) (employed s))"
    using assms(2) by (rule sub0)
  have g: "a_zero ar (a_round ar
      (a_mul ar (a_div ar (pop c) (foldl (\<lambda>s c. a_add ar s (pop c)) (a_lit ar 0) cs))
         (a_sub ar (employed s) (employed s))))" if "c \<in> set cs" for c
    using that assms(3) d by (intro rnd0 mul0) blast+
  have "js_index [s] (max 0 (int (length [s]) - 2)) = js_index [s] (int (length [s]) - 1)"
    by (simp add: js_index_def)
  moreover have "\<forall>f \<in> set (map (\<lambda>c.
        \<lparr> properties =
            \<lparr> name = City.name c,
              value = a_round ar
                (a_mul ar (a_div ar (pop c) (foldl (\<lambda>s c. a_add ar s (pop c)) (a_lit ar 0) cs))
                   (employed s)),
              growth = a_round ar
                (a_mul ar (a_div ar (pop c) (foldl (\<lambda>s c. a_add ar s (pop c)) (a_lit ar 0) cs))
                   (a_sub ar (employed s) (employed s))) \<rparr>,
          coordinates = coords c \<rparr>) cs). a_zero ar (growth (properties f))"
    using g by auto
  ultimately show ?thesis
    by (simp add: cityCollection_ar_single)
qed

text \<open>One snapshot with finite fields and the cities of the source.\<close>

theorem single_snapshot_growth_witness:
  "zero_laws nan_arith \<and>
   a_fin nan_arith (employed \<lparr> t = 0, population = Some 145973754, employed = Some 89627885,
      unemployed = Some 9634268, migration = Some 10625 \<rparr>) \<and>
   (\<exists>fs. cityCollection_ar nan_arith
      [\<lparr> t = 0, population = Some 145973754, employed = Some 89627885,
          unemployed = Some 9634268, migration = Some 10625 \<rparr>] (cities_ar nan_arith) = Inr fs \<and>
      length fs = 11 \<and> (\<forall>f \<in> set fs. growth (properties f) = Some 0))"
proof -
  let ?s = "\<lparr> t = 0, population = Some 145973754, employed = Some 89627885,
      unemployed = Some 9634268, migration = Some (10625 :: real) \<rparr>"
  have f: "a_fin nan_arith (employed ?s)"
    by (simp add: nan_arith_simps)
  have l: "length (cities_ar nan_arith) = 11"
    by (simp add: cities_ar_def cities_def)
  show ?thesis
    using zero_laws_nan f
      single_snapshot_growth [OF zero_laws_nan f cities_ar_fin, THEN conjunct2]
    by (simp add: l nan_arith_simps)
qed

text \<open>
  Claim C6 as it is written, for every one-element snapshot sequence, fails on the
  sequence that \<^verbatim>\<open>simulate\<close> returns for \<open>partialParams\<close>, with the cities of the
  source: \<open>employed\<close> is \<^verbatim>\<open>NaN\<close>, so \<^verbatim>\<open>last.employed - prev.employed\<close> is \<^verbatim>\<open>NaN\<close>, and
  so is the \<open>growth\<close> of every city.
\<close>

theorem single_snapshot_growth_counterexample:
  "simulate_ar nan_arith partialParams =
     [\<lparr> t = 0, population = None, employed = None, unemployed = None,
         migration = Some 10625 \<rparr>] \<and>
   cityCollection_ar nan_arith (simulate_ar nan_arith partialParams) (cities_ar nan_arith) =
     Inr [\<lparr> properties = \<lparr> name = ''Moskva'', value = None, growth = None \<rparr>,
            coordinates = (37.6176, 55.7558) \<rparr>,
          \<lparr> properties = \<lparr> name = ''Sankt-Peterburg'', value = None, growth = None \<rparr>,
            coordinates = (30.3158, 59.9391) \<rparr>,
          \<lparr> properties = \<lparr> name = ''Novosibirsk'', value = None, growth = None \<rparr>,
            coordinates = (82.9346, 55.0084) \<rparr>,
          \<lparr> properties = \<lparr> name = ''Ekaterinburg'', value = None, growth = None \<rparr>,
            coordinates = (60.6122, 56.8389) \<rparr>,
          \<lparr> properties = \<lparr> name = ''Kazan'', value = None, growth = None \<rparr>,
            coordinates = (49.1064, 55.7963) \<rparr>,
          \<lparr> properties = \<lparr> name = ''Nizhnii Novgorod'', value = None, growth = None \<rparr>,
            coordinates = (44.002, 56.3269) \<rparr>,
          \<lparr> properties = \<lparr> name = ''Samara'', value = None, growth = None \<rparr>,
            coordinates = (50.15, 53.2) \<rparr>,
          \<lparr> properties = \<lparr> name = ''Omsk'', value = None, growth = None \<rparr>,
            coordinates = (73.3686, 54.9914) \<rparr>,
          \<lparr> properties = \<lparr> name = ''Rostov-na-Donu'', value = None, growth = None \<rparr>,
            coordinates = (39.7015, 47.2357) \<rparr>,
          \<lparr> properties = \<lparr> name = ''Ufa'', value = None, growth = None \<rparr>,
            coordinates = (55.9678, 54.7388) \<rparr>,
          \<lparr> properties = \<lparr> name = ''Krasnoyarsk'', value = None, growth = None \<rparr>,
            coordinates = (92.868, 56.0153) \<rparr>] \<and>
   \<not> a_zero nan_arith None"
  unfolding simulate_partialParams
  by (simp add: cityCollection_ar_single cities_ar_def cities_def nan_arith_simps lift2_simps)


section \<open>The overlay merge\<close>

lemma nullish_eq:
  "nullish a b = (if a = JUndefined \<or> a = JNull then b else a)"
  by (cases a) simp_all

lemma get_prop_mergeOverlay_group:
  "k = ''peopleProps'' \<or> k = ''peopleActions'' \<or> k = ''orgActions'' \<Longrightarrow>
   get_prop (mergeOverlay p json) k = nullish (get_prop json k) (get_prop p k)"
  by (auto simp add: mergeOverlay_def get_prop_def)

lemma get_prop_mergeOverlay_top:
  "k \<noteq> ''peopleProps'' \<Longrightarrow> k \<noteq> ''peopleActions'' \<Longrightarrow> k \<noteq> ''orgActions'' \<Longrightarrow>
   get_prop (mergeOverlay p json) k = (case json k of None \<Rightarrow> get_prop p k | Some v \<Rightarrow> v)"
  by (simp add: mergeOverlay_def get_prop_def map_add_def split: option.splits)

text \<open>
  Claim C7, amended. For every in-memory parameter object and every overlay object,
  the merge is shallow: a top-level property that the overlay does not have keeps
  its current value, and one that it has takes the overlay's value. Each of the
  three grouped sub-objects \<open>peopleProps\<close>, \<open>peopleActions\<close> and \<open>orgActions\<close> falls
  back to the current sub-object when the overlay has none or has \<^verbatim>\<open>null\<close> there;
  a sub-object that the overlay provides replaces the current one as a whole, so
  every field \<open>f\<close> of the merged sub-object reads as it does in the overlay's.
\<close>

theorem merge_overlay_fallback:
  "(k \<notin> {''peopleProps'', ''peopleActions'', ''orgActions''} \<longrightarrow>
      get_prop (mergeOverlay p json) k =
        (case json k of None \<Rightarrow> get_prop p k | Some v \<Rightarrow> v)) \<and>
   (k \<in> {''peopleProps'', ''peopleActions'', ''orgActions''} \<longrightarrow>
      get_prop (mergeOverlay p json) k =
        (if get_prop json k = JUndefined \<or> get_prop json k = JNull
         then get_prop p k else get_prop json k) \<and>
      (get_prop json k \<noteq> JUndefined \<and> get_prop json k \<noteq> JNull \<longrightarrow>
         get_field (get_prop (mergeOverlay p json) k) f = get_field (get_prop json k) f))"
proof (intro conjI impI)
  assume "k \<notin> {''peopleProps'', ''peopleActions'', ''orgActions''}"
  then show "get_prop (mergeOverlay p json) k =
      (case json k of None \<Rightarrow> get_prop p k | Some v \<Rightarrow> v)"
    by (intro get_prop_mergeOverlay_top) simp_all
next
  assume "k \<in> {''peopleProps'', ''peopleActions'', ''orgActions''}"
  then have g: "get_prop (mergeOverlay p json) k = nullish (get_prop json k) (get_prop p k)"
    by (intro get_prop_mergeOverlay_group) simp
  show "get_prop (mergeOverlay p json) k =
      (if get_prop json k = JUndefined \<or> get_prop json k = JNull
       then get_prop p k else get_prop json k)"
    by (simp only: g nullish_eq)
  assume "get_prop json k \<noteq> JUndefined \<and> get_prop json k \<noteq> JNull"
  then show "get_field (get_prop (mergeOverlay p json) k) f = get_field (get_prop json k) f"
    by (simp add: g nullish_eq)
qed

text \<open>
  The default parameters under two overlays: one that sets \<open>birthRate\<close> and gives
  \<^verbatim>\<open>null\<close> for \<open>orgActions\<close>, one that provides \<open>peopleProps\<close> with the single field
  \<open>skills\<close>.
\<close>

theorem merge_overlay_fallback_witness:
  "''months'' \<notin> {''peopleProps'', ''peopleActions'', ''orgActions''} \<and>
   get_prop (mergeOverlay (params_obj defaultParams)
      [''birthRate'' \<mapsto> JNum 0.012, ''orgActions'' \<mapsto> JNull]) ''months'' = JNum 36 \<and>
   ''orgActions'' \<in> {''peopleProps'', ''peopleActions'', ''orgActions''} \<and>
   get_prop (mergeOverlay (params_obj defaultParams)
      [''birthRate'' \<mapsto> JNum 0.012, ''orgActions'' \<mapsto> JNull]) ''orgActions''
     = JObj (orgActions_obj (orgActions defaultParams)) \<and>
   ''peopleProps'' \<in> {''peopleProps'', ''peopleActions'', ''orgActions''} \<and>
   get_prop [''peopleProps'' \<mapsto> JObj [''skills'' \<mapsto> JNum 0.9]] ''peopleProps''
     \<noteq> JUndefined \<and>
   get_prop [''peopleProps'' \<mapsto> JObj [''skills'' \<mapsto> JNum 0.9]] ''peopleProps''
     \<noteq> JNull \<and>
   get_field (get_prop (mergeOverlay (params_obj defaultParams)
      [''peopleProps'' \<mapsto> JObj [''skills'' \<mapsto> JNum 0.9]]) ''peopleProps'') ''skills''
     = JNum 0.9"
proof -
  let ?o1 = "[''birthRate'' \<mapsto> JNum 0.012, ''orgActions'' \<mapsto> JNull] :: jsobject"
  let ?o2 = "[''peopleProps'' \<mapsto> JObj [''skills'' \<mapsto> JNum 0.9]] :: jsobject"
  have a: "''months'' \<notin> {''peopleProps'', ''peopleActions'', ''orgActions''}"
    by simp
  have b: "''orgActions'' \<in> {''peopleProps'', ''peopleActions'', ''orgActions''}"
    by simp
  have c: "''peopleProps'' \<in> {''peopleProps'', ''peopleActions'', ''orgActions''}"
    by simp
  have d: "get_prop ?o2 ''peopleProps'' \<noteq> JUndefined \<and> get_prop ?o2 ''peopleProps'' \<noteq> JNull"
    by (simp add: get_prop_def)
  have e1: "get_prop (mergeOverlay (params_obj defaultParams) ?o1) ''months'' = JNum 36"
    using merge_overlay_fallback [of "''months''" "params_obj defaultParams" ?o1, THEN conjunct1]
    by (simp add: get_prop_def params_obj_def defaultParams_def)
  have e2: "get_prop (mergeOverlay (params_obj defaultParams) ?o1) ''orgActions''
      = JObj (orgActions_obj (orgActions defaultParams))"
    using merge_overlay_fallback [of "''orgActions''" "params_obj defaultParams" ?o1,
        THEN conjunct2, rule_format, OF b, THEN conjunct1]
    by (simp add: get_prop_def params_obj_def)
  have e3: "get_field (get_prop (mergeOverlay (params_obj defaultParams) ?o2)
      ''peopleProps'') ''skills'' = JNum 0.9"
    using merge_overlay_fallback [of "''peopleProps''" "params_obj defaultParams" ?o2
        "''skills''", THEN conjunct2, rule_format, OF c, THEN conjunct2, rule_format, OF d]
    by (simp add: get_prop_def)
  show ?thesis
    by (intro conjI a b c d [THEN conjunct1] d [THEN conjunct2] e1 e2 e3)
qed

text \<open>
  Claim C7 as it is written fails for a field missing inside a sub-object that the
  overlay provides: with the overlay \<^verbatim>\<open>{peopleProps: {skills: 0.9}}\<close> over the default
  parameters, \<open>illness\<close> is 0.2 in the current \<open>peopleProps\<close> and is missing from the
  overlay's, and after the merge it reads \<^verbatim>\<open>undefined\<close>, not 0.2.
\<close>

theorem merge_overlay_counterexample:
  "get_field (get_prop (params_obj defaultParams) ''peopleProps'') ''illness'' = JNum 0.2 \<and>
   get_prop [''peopleProps'' \<mapsto> JObj [''skills'' \<mapsto> JNum 0.9]] ''peopleProps''
     = JObj [''skills'' \<mapsto> JNum 0.9] \<and>
   get_field (JObj [''skills'' \<mapsto> JNum 0.9]) ''illness'' = JUndefined \<and>
   get_field
     (get_prop
        (mergeOverlay (params_obj defaultParams)
           [''peopleProps'' \<mapsto> JObj [''skills'' \<mapsto> JNum 0.9]])
        ''peopleProps'')
     ''illness'' = JUndefined"
  by (simp add: mergeOverlay_def get_prop_def params_obj_def peopleProps_obj_def
      defaultParams_def)

end
